theory Spec2Isabelle
  imports Main "HOL-Library.Word" "HOL-Library.Multiset"
begin

section \<open>The native API as the code sees it\<close>

text \<open>
  \<open>Pipeline.cpp\<close> wraps three kinds of native objects (pipeline layouts, compute
  pipelines and the pipeline cache) and talks to the driver through six entry points.
  Handles are the 64-bit values of the API; \<open>VK_NULL_HANDLE\<close> is zero.
\<close>

type_synonym VkDevice = "64 word"
type_synonym VkDescriptorSetLayout = "64 word"
type_synonym VkShaderModule = "64 word"
type_synonym VkPipelineLayout = "64 word"
type_synonym VkPipeline = "64 word"
type_synonym VkPipelineCache = "64 word"
type_synonym VkResult = int
type_synonym mutex = nat

definition VK_NULL_HANDLE :: "64 word" where
  "VK_NULL_HANDLE = 0"

definition VK_SUCCESS :: VkResult where
  "VK_SUCCESS = 0"

definition VK_SHADER_STAGE_COMPUTE_BIT :: "32 word" where
  "VK_SHADER_STAGE_COMPUTE_BIT = 0x20"

datatype VkStructureType =
    VK_STRUCTURE_TYPE_PIPELINE_LAYOUT_CREATE_INFO
  | VK_STRUCTURE_TYPE_PIPELINE_SHADER_STAGE_CREATE_INFO
  | VK_STRUCTURE_TYPE_COMPUTE_PIPELINE_CREATE_INFO
  | VK_STRUCTURE_TYPE_PIPELINE_CACHE_CREATE_INFO

text \<open>
  \<open>utils::uvec3\<close> is a struct holding \<open>uint32_t data[3]\<close>. Its declaration and its
  comparison live in a header that is not part of the sources at hand.
\<close>

datatype uvec3 = Uvec3 "32 word" "32 word" "32 word"

fun data :: "uvec3 \<Rightarrow> nat \<Rightarrow> 32 word" where
  "data (Uvec3 x y z) i = (if i = 0 then x else if i = 1 then y else z)"

text \<open>
  Modelled from the spec: the comparison of two launch-geometry vectors (the
  \<open>operator==\<close> of \<open>utils::uvec3\<close>, declared outside \<open>Pipeline.cpp\<close>). The spec calls the
  key's equality structural over every component of the 3-component vector.
\<close>

definition uvec3_eq :: "uvec3 \<Rightarrow> uvec3 \<Rightarrow> bool" where
  "uvec3_eq a b = (data a 0 = data b 0 \<and> data a 1 = data b 1 \<and> data a 2 = data b 2)"

text \<open>
  Modelled from the spec: the layout of \<open>utils::uvec3\<close> in memory, three unsigned 32-bit
  components one after the other, so that \<open>offsetof(utils::uvec3, data[i])\<close> is \<open>4 * i\<close>,
  \<open>sizeof(utils::uvec3::data[i])\<close> is 4 and the whole vector takes 12 bytes. The bytes of a
  component are written least significant first; the driver reads them back the same way.
\<close>

definition offsetof_uvec3_data :: "nat \<Rightarrow> nat" where
  "offsetof_uvec3_data i = 4 * i"

definition sizeof_uvec3_data :: "nat \<Rightarrow> nat" where
  "sizeof_uvec3_data i = 4"

definition sizeof_uvec3 :: nat where
  "sizeof_uvec3 = 12"

definition u32_bytes :: "32 word \<Rightarrow> 8 word list" where
  "u32_bytes w = [ucast w, ucast (drop_bit 8 w), ucast (drop_bit 16 w), ucast (drop_bit 24 w)]"

definition uvec3_bytes :: "uvec3 \<Rightarrow> 8 word list" where
  "uvec3_bytes v = u32_bytes (data v 0) @ u32_bytes (data v 1) @ u32_bytes (data v 2)"

fun bytes_value :: "8 word list \<Rightarrow> nat" where
  "bytes_value [] = 0"
| "bytes_value (b # bs) = unat b + 256 * bytes_value bs"

subsection \<open>Creation records\<close>

record VkPipelineLayoutCreateInfo =
  layout_sType :: VkStructureType
  layout_pNext :: "nat option"
  layout_flags :: "32 word"
  setLayoutCount :: "32 word"
  pSetLayouts :: "VkDescriptorSetLayout list"
  pushConstantRangeCount :: "32 word"
  pPushConstantRanges :: "nat option"

record VkSpecializationMapEntry =
  constantID :: "32 word"
  offset :: nat
  size' :: nat

record VkSpecializationInfo =
  mapEntryCount :: "32 word"
  pMapEntries :: "VkSpecializationMapEntry list"
  dataSize :: nat
  pData :: "8 word list"

record VkPipelineShaderStageCreateInfo =
  stage_sType :: VkStructureType
  stage_pNext :: "nat option"
  stage_flags :: "32 word"
  stage :: "32 word"
  module :: VkShaderModule
  pName :: string
  pSpecializationInfo :: VkSpecializationInfo

record VkComputePipelineCreateInfo =
  pipeline_sType :: VkStructureType
  pipeline_pNext :: "nat option"
  pipeline_flags :: "32 word"
  pipeline_stage :: VkPipelineShaderStageCreateInfo
  layout :: VkPipelineLayout
  basePipelineHandle :: VkPipeline
  basePipelineIndex :: "32 word"

record VkPipelineCacheCreateInfo =
  cache_sType :: VkStructureType
  cache_pNext :: "nat option"
  cache_flags :: "32 word"
  initialDataSize :: nat
  pInitialData :: "nat option"

subsection \<open>Calls and their record\<close>

text \<open>
  Every call that reaches the driver, and every acquisition and release of a mutex, is
  written to a trace, oldest first. A creation call is recorded with the result code and
  the handle the driver wrote back.
\<close>

datatype vk_create =
    vkCreatePipelineLayout VkDevice VkPipelineLayoutCreateInfo
  | vkCreateComputePipelines VkDevice VkPipelineCache "VkComputePipelineCreateInfo list"
  | vkCreatePipelineCache VkDevice VkPipelineCacheCreateInfo

datatype event =
    Created vk_create VkResult "64 word"
  | vkDestroyPipelineLayout VkDevice VkPipelineLayout
  | vkDestroyPipeline VkDevice VkPipeline
  | vkDestroyPipelineCache VkDevice VkPipelineCache
  | Lock mutex
  | Unlock mutex

type_synonym world = "event list"

text \<open>
  The driver is not part of the code: it is a parameter, any function from the calls made
  so far and the request to a result code and a handle value.
\<close>

type_synonym driver = "world \<Rightarrow> vk_create \<Rightarrow> VkResult \<times> 64 word"

datatype error = ResourceCreationFailure VkResult

text \<open>
  Modelled from the spec: the macro \<open>VK_CHECK\<close> (defined outside \<open>Pipeline.cpp\<close>). A native
  create call that returns anything but success fails fatally; there is no error return
  path.
\<close>

definition VK_CHECK :: "VkResult \<Rightarrow> 'a \<Rightarrow> error + 'a" where
  "VK_CHECK result ok = (if result = VK_SUCCESS then Inr ok else Inl (ResourceCreationFailure result))"

section \<open>PipelineLayout\<close>

record PipelineLayout =
  layout_device :: VkDevice
  layout_handle :: VkPipelineLayout

definition PipelineLayout_ctor ::
  "driver \<Rightarrow> VkDevice \<Rightarrow> VkDescriptorSetLayout \<Rightarrow> world \<Rightarrow> error + (PipelineLayout \<times> world)" where
  "PipelineLayout_ctor drv device descriptor_layout w =
     (let pipeline_layout_create_info = \<lparr>
            layout_sType = VK_STRUCTURE_TYPE_PIPELINE_LAYOUT_CREATE_INFO,
            layout_pNext = None,
            layout_flags = 0,
            setLayoutCount = 1,
            pSetLayouts = [descriptor_layout],
            pushConstantRangeCount = 0,
            pPushConstantRanges = None \<rparr>;
          request = vkCreatePipelineLayout device pipeline_layout_create_info;
          (result, h) = drv w request
      in VK_CHECK result
           (\<lparr> layout_device = device, layout_handle = h \<rparr>, w @ [Created request result h]))"

text \<open>The move constructor: the new object first, the moved-from object second.\<close>

definition PipelineLayout_move :: "PipelineLayout \<Rightarrow> PipelineLayout \<times> PipelineLayout" where
  "PipelineLayout_move other =
     (\<lparr> layout_device = layout_device other, layout_handle = layout_handle other \<rparr>,
      other\<lparr> layout_handle := VK_NULL_HANDLE \<rparr>)"

definition PipelineLayout_dtor :: "PipelineLayout \<Rightarrow> world \<Rightarrow> PipelineLayout \<times> world" where
  "PipelineLayout_dtor self w =
     (if VK_NULL_HANDLE = layout_handle self then (self, w)
      else (self\<lparr> layout_handle := VK_NULL_HANDLE \<rparr>,
            w @ [vkDestroyPipelineLayout (layout_device self) (layout_handle self)]))"

definition PipelineLayout_swap :: "PipelineLayout \<Rightarrow> PipelineLayout \<Rightarrow> PipelineLayout \<times> PipelineLayout" where
  "PipelineLayout_swap lhs rhs =
     (let tmp_device = layout_device lhs;
          tmp_handle = layout_handle lhs;
          lhs1 = lhs\<lparr> layout_device := layout_device rhs, layout_handle := layout_handle rhs \<rparr>;
          rhs1 = rhs\<lparr> layout_device := tmp_device, layout_handle := tmp_handle \<rparr>
      in (lhs1, rhs1))"

definition PipelineLayout_handle :: "PipelineLayout \<Rightarrow> VkPipelineLayout" where
  "PipelineLayout_handle self = layout_handle self"

section \<open>ComputePipeline\<close>

record Descriptor =
  pipeline_layout :: VkPipelineLayout
  shader_module :: VkShaderModule
  local_work_group :: uvec3

record ComputePipeline =
  pipeline_device :: VkDevice
  pipeline_handle :: VkPipeline

definition specialization_map_entires :: "VkSpecializationMapEntry list" where
  "specialization_map_entires =
     [\<lparr> constantID = 0, offset = offsetof_uvec3_data 0, size' = sizeof_uvec3_data 0 \<rparr>,
      \<lparr> constantID = 1, offset = offsetof_uvec3_data 1, size' = sizeof_uvec3_data 1 \<rparr>,
      \<lparr> constantID = 2, offset = offsetof_uvec3_data 2, size' = sizeof_uvec3_data 2 \<rparr>]"

definition compute_pipeline_create_info :: "Descriptor \<Rightarrow> VkComputePipelineCreateInfo" where
  "compute_pipeline_create_info descriptor =
     (let specialization_info = \<lparr>
            mapEntryCount = 3,
            pMapEntries = specialization_map_entires,
            dataSize = sizeof_uvec3,
            pData = uvec3_bytes (local_work_group descriptor) \<rparr>;
          shader_stage_create_info = \<lparr>
            stage_sType = VK_STRUCTURE_TYPE_PIPELINE_SHADER_STAGE_CREATE_INFO,
            stage_pNext = None,
            stage_flags = 0,
            stage = VK_SHADER_STAGE_COMPUTE_BIT,
            module = shader_module descriptor,
            pName = ''main'',
            pSpecializationInfo = specialization_info \<rparr>
      in \<lparr> pipeline_sType = VK_STRUCTURE_TYPE_COMPUTE_PIPELINE_CREATE_INFO,
           pipeline_pNext = None,
           pipeline_flags = 0,
           pipeline_stage = shader_stage_create_info,
           layout = pipeline_layout descriptor,
           basePipelineHandle = VK_NULL_HANDLE,
           basePipelineIndex = 0 \<rparr>)"

definition ComputePipeline_ctor ::
  "driver \<Rightarrow> VkDevice \<Rightarrow> Descriptor \<Rightarrow> VkPipelineCache \<Rightarrow> world \<Rightarrow> error + (ComputePipeline \<times> world)" where
  "ComputePipeline_ctor drv device descriptor pipeline_cache w =
     (let request = vkCreateComputePipelines device pipeline_cache
                      [compute_pipeline_create_info descriptor];
          (result, h) = drv w request
      in VK_CHECK result
           (\<lparr> pipeline_device = device, pipeline_handle = h \<rparr>, w @ [Created request result h]))"

definition ComputePipeline_move :: "ComputePipeline \<Rightarrow> ComputePipeline \<times> ComputePipeline" where
  "ComputePipeline_move other =
     (\<lparr> pipeline_device = pipeline_device other, pipeline_handle = pipeline_handle other \<rparr>,
      other\<lparr> pipeline_handle := VK_NULL_HANDLE \<rparr>)"

definition ComputePipeline_dtor :: "ComputePipeline \<Rightarrow> world \<Rightarrow> ComputePipeline \<times> world" where
  "ComputePipeline_dtor self w =
     (if VK_NULL_HANDLE = pipeline_handle self then (self, w)
      else (self\<lparr> pipeline_handle := VK_NULL_HANDLE \<rparr>,
            w @ [vkDestroyPipeline (pipeline_device self) (pipeline_handle self)]))"

definition ComputePipeline_swap :: "ComputePipeline \<Rightarrow> ComputePipeline \<Rightarrow> ComputePipeline \<times> ComputePipeline" where
  "ComputePipeline_swap lhs rhs =
     (let tmp_device = pipeline_device lhs;
          tmp_handle = pipeline_handle lhs;
          lhs1 = lhs\<lparr> pipeline_device := pipeline_device rhs, pipeline_handle := pipeline_handle rhs \<rparr>;
          rhs1 = rhs\<lparr> pipeline_device := tmp_device, pipeline_handle := tmp_handle \<rparr>
      in (lhs1, rhs1))"

definition ComputePipeline_handle :: "ComputePipeline \<Rightarrow> VkPipeline" where
  "ComputePipeline_handle self = pipeline_handle self"

definition descriptor_eq :: "Descriptor \<Rightarrow> Descriptor \<Rightarrow> bool" where
  "descriptor_eq a b =
     (pipeline_layout a = pipeline_layout b \<and>
      shader_module a = shader_module b \<and>
      uvec3_eq (local_work_group a) (local_work_group b))"

section \<open>The standard containers and the lock\<close>

text \<open>
  \<open>std::unordered_map\<close> as the list of its entries. \<open>find\<close> compares keys with the key
  type's equality and yields the entry's value; \<open>insert\<close> adds the entry unless the key is
  there already; \<open>clear\<close> runs the destructor of every value. Assigning from
  \<open>std::move(other.cache_)\<close> hands the entries over as they are, none moved one by one,
  and leaves the source without entries, as the standard library implementations do.
\<close>

fun umap_find :: "('k \<Rightarrow> 'k \<Rightarrow> bool) \<Rightarrow> ('k \<times> 'v) list \<Rightarrow> 'k \<Rightarrow> 'v option" where
  "umap_find eq [] key = None"
| "umap_find eq ((k, v) # rest) key = (if eq k key then Some v else umap_find eq rest key)"

definition umap_insert :: "('k \<Rightarrow> 'k \<Rightarrow> bool) \<Rightarrow> ('k \<times> 'v) list \<Rightarrow> 'k \<times> 'v \<Rightarrow> ('k \<times> 'v) list" where
  "umap_insert eq m kv = (case umap_find eq m (fst kv) of None \<Rightarrow> m @ [kv] | Some v \<Rightarrow> m)"

fun clear_layouts :: "('k \<times> PipelineLayout) list \<Rightarrow> world \<Rightarrow> world" where
  "clear_layouts [] w = w"
| "clear_layouts ((k, v) # rest) w = clear_layouts rest (snd (PipelineLayout_dtor v w))"

fun clear_pipelines :: "('k \<times> ComputePipeline) list \<Rightarrow> world \<Rightarrow> world" where
  "clear_pipelines [] w = w"
| "clear_pipelines ((k, v) # rest) w = clear_pipelines rest (snd (ComputePipeline_dtor v w))"

section \<open>PipelineLayoutCache\<close>

text \<open>
  The members \<open>cache_mutex_\<close>, \<open>device_\<close> and \<open>cache_\<close>. A mutex is known by the identity
  of the object that holds it, which the constructors take as their first argument.
\<close>

record PipelineLayoutCache =
  plc_cache_mutex :: mutex
  plc_device :: VkDevice
  plc_cache :: "(VkDescriptorSetLayout \<times> PipelineLayout) list"

definition PipelineLayoutCache_ctor :: "mutex \<Rightarrow> VkDevice \<Rightarrow> PipelineLayoutCache" where
  "PipelineLayoutCache_ctor m device =
     \<lparr> plc_cache_mutex = m, plc_device = device, plc_cache = [] \<rparr>"

text \<open>The move constructor yields the new cache, the moved-from cache and the world.\<close>

definition PipelineLayoutCache_move ::
  "mutex \<Rightarrow> PipelineLayoutCache \<Rightarrow> world \<Rightarrow> PipelineLayoutCache \<times> PipelineLayoutCache \<times> world" where
  "PipelineLayoutCache_move m other w =
     (let w1 = w @ [Lock (plc_cache_mutex other)];
          self = \<lparr> plc_cache_mutex = m, plc_device = plc_device other, plc_cache = plc_cache other \<rparr>;
          other1 = other\<lparr> plc_cache := [] \<rparr>
      in (self, other1, w1 @ [Unlock (plc_cache_mutex other)]))"

definition PipelineLayoutCache_retrieve ::
  "driver \<Rightarrow> VkDescriptorSetLayout \<Rightarrow> PipelineLayoutCache \<times> world
     \<Rightarrow> error + (VkPipelineLayout \<times> PipelineLayoutCache \<times> world)" where
  "PipelineLayoutCache_retrieve drv key cw =
     (let (self, w) = cw;
          w1 = w @ [Lock (plc_cache_mutex self)]
      in case umap_find (=) (plc_cache self) key of
           Some v \<Rightarrow>
             Inr (PipelineLayout_handle v, self, w1 @ [Unlock (plc_cache_mutex self)])
         | None \<Rightarrow>
             (case PipelineLayout_ctor drv (plc_device self) key w1 of
                Inl e \<Rightarrow> Inl e
              | Inr (val, w2) \<Rightarrow>
                  let (in_pair, val1) = PipelineLayout_move val;
                      (in_node, in_pair1) = PipelineLayout_move in_pair;
                      cache1 = umap_insert (=) (plc_cache self) (key, in_node);
                      w3 = snd (PipelineLayout_dtor in_pair1 w2);
                      w4 = snd (PipelineLayout_dtor val1 w3)
                  in Inr (PipelineLayout_handle in_node,
                          self\<lparr> plc_cache := cache1 \<rparr>,
                          w4 @ [Unlock (plc_cache_mutex self)])))"

definition PipelineLayoutCache_purge :: "PipelineLayoutCache \<times> world \<Rightarrow> PipelineLayoutCache \<times> world" where
  "PipelineLayoutCache_purge cw =
     (let (self, w) = cw;
          w1 = w @ [Lock (plc_cache_mutex self)];
          w2 = clear_layouts (plc_cache self) w1
      in (self\<lparr> plc_cache := [] \<rparr>, w2 @ [Unlock (plc_cache_mutex self)]))"

definition PipelineLayoutCache_dtor :: "PipelineLayoutCache \<times> world \<Rightarrow> PipelineLayoutCache \<times> world" where
  "PipelineLayoutCache_dtor cw = PipelineLayoutCache_purge cw"

section \<open>ComputePipelineCache\<close>

text \<open>The members \<open>cache_mutex_\<close>, \<open>device_\<close>, \<open>pipeline_cache_\<close> and \<open>cache_\<close>.\<close>

record ComputePipelineCache =
  cpc_cache_mutex :: mutex
  cpc_device :: VkDevice
  cpc_pipeline_cache :: VkPipelineCache
  cpc_cache :: "(Descriptor \<times> ComputePipeline) list"

definition ComputePipelineCache_ctor ::
  "driver \<Rightarrow> mutex \<Rightarrow> VkDevice \<Rightarrow> world \<Rightarrow> error + (ComputePipelineCache \<times> world)" where
  "ComputePipelineCache_ctor drv m device w =
     (let pipeline_cache_create_info = \<lparr>
            cache_sType = VK_STRUCTURE_TYPE_PIPELINE_CACHE_CREATE_INFO,
            cache_pNext = None,
            cache_flags = 0,
            initialDataSize = 0,
            pInitialData = None \<rparr>;
          request = vkCreatePipelineCache device pipeline_cache_create_info;
          (result, h) = drv w request
      in VK_CHECK result
           (\<lparr> cpc_cache_mutex = m, cpc_device = device, cpc_pipeline_cache = h, cpc_cache = [] \<rparr>,
            w @ [Created request result h]))"

definition ComputePipelineCache_move ::
  "mutex \<Rightarrow> ComputePipelineCache \<Rightarrow> world \<Rightarrow> ComputePipelineCache \<times> ComputePipelineCache \<times> world" where
  "ComputePipelineCache_move m other w =
     (let w1 = w @ [Lock (cpc_cache_mutex other)];
          self = \<lparr> cpc_cache_mutex = m, cpc_device = cpc_device other,
                   cpc_pipeline_cache = cpc_pipeline_cache other, cpc_cache = cpc_cache other \<rparr>;
          other1 = other\<lparr> cpc_cache := [] \<rparr>;
          other2 = other1\<lparr> cpc_pipeline_cache := VK_NULL_HANDLE \<rparr>
      in (self, other2, w1 @ [Unlock (cpc_cache_mutex other)]))"

definition ComputePipelineCache_purge :: "ComputePipelineCache \<times> world \<Rightarrow> ComputePipelineCache \<times> world" where
  "ComputePipelineCache_purge cw =
     (let (self, w) = cw
      in (self\<lparr> cpc_cache := [] \<rparr>, clear_pipelines (cpc_cache self) w))"

definition ComputePipelineCache_dtor :: "ComputePipelineCache \<times> world \<Rightarrow> ComputePipelineCache \<times> world" where
  "ComputePipelineCache_dtor cw =
     (let (self, w) = ComputePipelineCache_purge cw
      in if VK_NULL_HANDLE = cpc_pipeline_cache self then (self, w)
         else (self\<lparr> cpc_pipeline_cache := VK_NULL_HANDLE \<rparr>,
               w @ [vkDestroyPipelineCache (cpc_device self) (cpc_pipeline_cache self)]))"

definition ComputePipelineCache_retrieve ::
  "driver \<Rightarrow> Descriptor \<Rightarrow> ComputePipelineCache \<times> world
     \<Rightarrow> error + (VkPipeline \<times> ComputePipelineCache \<times> world)" where
  "ComputePipelineCache_retrieve drv key cw =
     (let (self, w) = cw;
          w1 = w @ [Lock (cpc_cache_mutex self)]
      in case umap_find descriptor_eq (cpc_cache self) key of
           Some v \<Rightarrow>
             Inr (ComputePipeline_handle v, self, w1 @ [Unlock (cpc_cache_mutex self)])
         | None \<Rightarrow>
             (case ComputePipeline_ctor drv (cpc_device self) key (cpc_pipeline_cache self) w1 of
                Inl e \<Rightarrow> Inl e
              | Inr (val, w2) \<Rightarrow>
                  let (in_pair, val1) = ComputePipeline_move val;
                      (in_node, in_pair1) = ComputePipeline_move in_pair;
                      cache1 = umap_insert descriptor_eq (cpc_cache self) (key, in_node);
                      w3 = snd (ComputePipeline_dtor in_pair1 w2);
                      w4 = snd (ComputePipeline_dtor val1 w3)
                  in Inr (ComputePipeline_handle in_node,
                          self\<lparr> cpc_cache := cache1 \<rparr>,
                          w4 @ [Unlock (cpc_cache_mutex self)])))"

section \<open>What the driver reads from a specialization\<close>

text \<open>
  The driver resolves the constant with a given id through the first map entry with that
  id among the first \<open>mapEntryCount\<close> entries, and reads \<open>size\<close> bytes at \<open>offset\<close> of
  the data.
\<close>

definition specialization_constant :: "VkSpecializationInfo \<Rightarrow> 32 word \<Rightarrow> nat option" where
  "specialization_constant info cid =
     (case find (\<lambda>e. constantID e = cid) (take (unat (mapEntryCount info)) (pMapEntries info)) of
        None \<Rightarrow> None
      | Some e \<Rightarrow>
          if offset e + size' e \<le> dataSize info \<and> dataSize info \<le> length (pData info)
          then Some (bytes_value (take (size' e) (drop (offset e) (pData info))))
          else None)"


section \<open>Properties\<close>

subsection \<open>Keys and specialization data\<close>

lemma unat_low_byte: "unat (ucast (w :: 32 word) :: 8 word) = unat w mod 256"
  by (simp add: unsigned_ucast_eq take_bit_eq_mod)

lemma unat_drop8: "unat (drop_bit n (w :: 32 word)) = unat w div 2 ^ n"
  unfolding unat_drop_bit_eq by (rule drop_bit_eq_div)

lemma radix:
  fixes n :: nat
  shows "n mod 256 + (256 * (n div 256 mod 256) +
      (65536 * (n div 65536 mod 256) + 16777216 * (n div 16777216))) = n"
proof -
  define q1 where "q1 = n div 256"
  define q2 where "q2 = q1 div 256"
  define q3 where "q3 = q2 div 256"
  have a: "n div 65536 = q2"
    unfolding q2_def q1_def by (simp add: div_mult2_eq)
  have b: "n div 16777216 = q3"
    unfolding q3_def q2_def q1_def by (simp add: div_mult2_eq)
  have e1: "n = n mod 256 + 256 * q1" unfolding q1_def by simp
  have e2: "q1 = q1 mod 256 + 256 * q2" unfolding q2_def by simp
  have e3: "q2 = q2 mod 256 + 256 * q3" unfolding q3_def by simp
  have "n mod 256 + (256 * (q1 mod 256) + (65536 * (q2 mod 256) + 16777216 * q3)) = n"
    using e1 e2 e3 by linarith
  then show ?thesis unfolding a b q1_def [symmetric] .
qed


lemma bytes_value_u32: "bytes_value (u32_bytes w) = unat w"
proof -
  have "unat w < 2 ^ 32" using unsigned_less [of w] by simp
  then have "unat w div 16777216 < 256" by simp
  then have top: "unat w div 16777216 mod 256 = unat w div 16777216" by simp
  show ?thesis
    by (simp add: u32_bytes_def unat_low_byte unat_drop8 top radix)
qed

lemma length_u32_bytes: "length (u32_bytes w) = 4"
  by (simp add: u32_bytes_def)

lemma specialization_info_eq:
  "pSpecializationInfo (pipeline_stage (compute_pipeline_create_info d)) =
     \<lparr> mapEntryCount = 3, pMapEntries = specialization_map_entires,
       dataSize = sizeof_uvec3, pData = uvec3_bytes (local_work_group d) \<rparr>"
  by (simp add: compute_pipeline_create_info_def)

lemma specialization_constant_x:
  "specialization_constant (pSpecializationInfo (pipeline_stage (compute_pipeline_create_info d))) 0
     = Some (unat (data (local_work_group d) 0))"
  by (simp add: specialization_constant_def specialization_info_eq
      specialization_map_entires_def offsetof_uvec3_data_def sizeof_uvec3_data_def sizeof_uvec3_def
      uvec3_bytes_def length_u32_bytes bytes_value_u32)

lemma specialization_constant_y:
  "specialization_constant (pSpecializationInfo (pipeline_stage (compute_pipeline_create_info d))) 1
     = Some (unat (data (local_work_group d) 1))"
  by (simp add: specialization_constant_def specialization_info_eq
      specialization_map_entires_def offsetof_uvec3_data_def sizeof_uvec3_data_def sizeof_uvec3_def
      uvec3_bytes_def length_u32_bytes bytes_value_u32)

lemma specialization_constant_z:
  "specialization_constant (pSpecializationInfo (pipeline_stage (compute_pipeline_create_info d))) 2
     = Some (unat (data (local_work_group d) 2))"
  by (simp add: specialization_constant_def specialization_info_eq
      specialization_map_entires_def offsetof_uvec3_data_def sizeof_uvec3_data_def sizeof_uvec3_def
      uvec3_bytes_def length_u32_bytes bytes_value_u32)

lemma specialization_constant_other:
  "cid \<noteq> 0 \<Longrightarrow> cid \<noteq> 1 \<Longrightarrow> cid \<noteq> 2 \<Longrightarrow>
   specialization_constant (pSpecializationInfo (pipeline_stage (compute_pipeline_create_info d))) cid = None"
  by (simp add: specialization_constant_def specialization_info_eq specialization_map_entires_def)

lemma ComputePipeline_ctor_unfold:
  "ComputePipeline_ctor drv device descriptor pipeline_cache w =
     VK_CHECK (fst (drv w (vkCreateComputePipelines device pipeline_cache [compute_pipeline_create_info descriptor])))
       (\<lparr> pipeline_device = device,
          pipeline_handle = snd (drv w (vkCreateComputePipelines device pipeline_cache [compute_pipeline_create_info descriptor])) \<rparr>,
        w @ [Created (vkCreateComputePipelines device pipeline_cache [compute_pipeline_create_info descriptor])
               (fst (drv w (vkCreateComputePipelines device pipeline_cache [compute_pipeline_create_info descriptor])))
               (snd (drv w (vkCreateComputePipelines device pipeline_cache [compute_pipeline_create_info descriptor])))])"
  by (simp add: ComputePipeline_ctor_def Let_def split_beta)

lemma specialized_ids:
  "{cid. specialization_constant (pSpecializationInfo (pipeline_stage
      (compute_pipeline_create_info descriptor))) cid \<noteq> None} = {0, 1, 2}" (is "?L = ?R")
proof
  show "?L \<subseteq> ?R"
  proof
    fix cid assume mem: "cid \<in> ?L"
    show "cid \<in> ?R"
    proof (rule ccontr)
      assume "cid \<notin> ?R"
      then have "cid \<noteq> 0" "cid \<noteq> 1" "cid \<noteq> 2" by simp_all
      then have "specialization_constant (pSpecializationInfo (pipeline_stage
          (compute_pipeline_create_info descriptor))) cid = None"
        by (rule specialization_constant_other)
      with mem show False by simp
    qed
  qed
  show "?R \<subseteq> ?L"
    by (simp add: specialization_constant_x specialization_constant_y specialization_constant_z)
qed

text \<open>
  C6. Constructing a \<open>ComputePipeline\<close> from a device, a descriptor and the acceleration
  reference makes one creation call with one create record. Its single shader stage is the
  compute stage at the entry symbol \<open>main\<close>, and its specialization supplies exactly the
  three constants with ids 0, 1 and 2, whose values are the x, y and z components of the
  descriptor's launch geometry.
\<close>

theorem compute_pipeline_stage_and_constants:
  "(let info = compute_pipeline_create_info descriptor;
        request = vkCreateComputePipelines device pipeline_cache [info];
        shader_stage = pipeline_stage info;
        specialization = pSpecializationInfo shader_stage
    in ComputePipeline_ctor drv device descriptor pipeline_cache w =
         VK_CHECK (fst (drv w request))
           (\<lparr> pipeline_device = device, pipeline_handle = snd (drv w request) \<rparr>,
            w @ [Created request (fst (drv w request)) (snd (drv w request))])
       \<and> stage shader_stage = VK_SHADER_STAGE_COMPUTE_BIT
       \<and> module shader_stage = shader_module descriptor
       \<and> pName shader_stage = ''main''
       \<and> layout info = pipeline_layout descriptor
       \<and> mapEntryCount specialization = 3
       \<and> map constantID (pMapEntries specialization) = [0, 1, 2]
       \<and> specialization_constant specialization 0 = Some (unat (data (local_work_group descriptor) 0))
       \<and> specialization_constant specialization 1 = Some (unat (data (local_work_group descriptor) 1))
       \<and> specialization_constant specialization 2 = Some (unat (data (local_work_group descriptor) 2))
       \<and> {cid. specialization_constant specialization cid \<noteq> None} = {0, 1, 2})"
proof -
  have fields:
    "stage (pipeline_stage (compute_pipeline_create_info descriptor)) = VK_SHADER_STAGE_COMPUTE_BIT"
    "module (pipeline_stage (compute_pipeline_create_info descriptor)) = shader_module descriptor"
    "pName (pipeline_stage (compute_pipeline_create_info descriptor)) = ''main''"
    "layout (compute_pipeline_create_info descriptor) = pipeline_layout descriptor"
    "mapEntryCount (pSpecializationInfo (pipeline_stage (compute_pipeline_create_info descriptor))) = 3"
    "map constantID (pMapEntries (pSpecializationInfo (pipeline_stage (compute_pipeline_create_info descriptor)))) = [0, 1, 2]"
    by (simp_all add: compute_pipeline_create_info_def specialization_map_entires_def)
  show ?thesis
    unfolding Let_def
    by (intro conjI ComputePipeline_ctor_unfold fields specialized_ids
        specialization_constant_x specialization_constant_y specialization_constant_z)
qed


end
